theory Spec2Isabelle
  imports Complex_Main "HOL-Library.Word"
begin

section \<open>Python values, exceptions and the configuration dictionary\<close>

text \<open>
  The detector keeps whatever \<^verbatim>\<open>json.load\<close> returned as its configuration, so the
  model carries JSON values as Python sees them. Python floats are modelled as reals
  (exact arithmetic); rounding is outside the model.
\<close>

datatype py_error =
    KeyError | TypeError | ValueError | AttributeError | JSONDecodeError | CvError

datatype jvalue =
    JNull
  | JBool bool
  | JInt int
  | JFloat real
  | JStr string
  | JList "jvalue list"
  | JObj "(string \<times> jvalue) list"

text \<open>The outcome of a method that mutates the object: the state it leaves behind, with
  the returned value or the exception that escaped.\<close>

datatype ('a, 's) outcome = Returned 'a 's | Raised py_error 's

fun state_of :: "('a, 's) outcome \<Rightarrow> 's" where
  "state_of (Returned _ s) = s"
| "state_of (Raised _ s) = s"

fun raised :: "('a, 's) outcome \<Rightarrow> bool" where
  "raised (Returned _ _) = False"
| "raised (Raised _ _) = True"

text \<open>Python truthiness, as \<^verbatim>\<open>if roi:\<close> and \<^verbatim>\<open>if self.config.get(...)\<close> test it.\<close>

fun truthy :: "jvalue \<Rightarrow> bool" where
  "truthy JNull = False"
| "truthy (JBool b) = b"
| "truthy (JInt i) = (i \<noteq> 0)"
| "truthy (JFloat r) = (r \<noteq> 0)"
| "truthy (JStr s) = (s \<noteq> [])"
| "truthy (JList xs) = (xs \<noteq> [])"
| "truthy (JObj kvs) = (kvs \<noteq> [])"

text \<open>\<^verbatim>\<open>config[key]\<close>: a missing key raises KeyError; a top-level JSON value that is not an
  object cannot be indexed by a string.\<close>

fun getitem :: "jvalue \<Rightarrow> string \<Rightarrow> py_error + jvalue" where
  "getitem (JObj kvs) k = (case map_of kvs k of None \<Rightarrow> Inl KeyError | Some v \<Rightarrow> Inr v)"
| "getitem _ k = Inl TypeError"

text \<open>\<^verbatim>\<open>config.get(key)\<close>: a missing key gives None; only a dict has the method.\<close>

fun get :: "jvalue \<Rightarrow> string \<Rightarrow> py_error + jvalue" where
  "get (JObj kvs) k = (case map_of kvs k of None \<Rightarrow> Inr JNull | Some v \<Rightarrow> Inr v)"
| "get _ k = Inl AttributeError"

text \<open>A value used as a number in a comparison with a float: ints, floats and bools
  compare; anything else raises TypeError.\<close>

fun num_of :: "jvalue \<Rightarrow> py_error + real" where
  "num_of (JInt i) = Inr (real_of_int i)"
| "num_of (JFloat r) = Inr r"
| "num_of (JBool b) = Inr (if b then 1 else 0)"
| "num_of _ = Inl TypeError"

text \<open>A value used as a slice bound: ints and bools only.\<close>

fun index_of :: "jvalue \<Rightarrow> py_error + int" where
  "index_of (JInt i) = Inr i"
| "index_of (JBool b) = Inr (if b then 1 else 0)"
| "index_of _ = Inl TypeError"

section \<open>Configuration loading (\<^verbatim>\<open>_load_config\<close>, \<^verbatim>\<open>_default_config\<close>)\<close>

datatype log_level = INFO | WARNING | ERROR

type_synonym log_line = "log_level \<times> string"

text \<open>What the file system holds at \<^verbatim>\<open>config_path\<close>: nothing, a file that
  \<^verbatim>\<open>json.load\<close> rejects, or a file that parses to a JSON value.\<close>

datatype config_file = Missing | Malformed | Parsed jvalue

definition default_config :: jvalue where
  "default_config = JObj
     [(''camera_index'', JInt 0),
      (''frame_width'', JInt 640),
      (''frame_height'', JInt 480),
      (''fps'', JInt 30),
      (''led_pin'', JInt 17),
      (''min_contour_area'', JInt 5000),
      (''detection_cooldown'', JFloat 2.0),
      (''alert_duration'', JFloat 5.0),
      (''bg_history'', JInt 500),
      (''var_threshold'', JInt 50),
      (''roi'', JNull),
      (''save_detections'', JBool False),
      (''detections_dir'', JStr ''detections'')]"

definition load_config :: "config_file \<Rightarrow> (jvalue, log_line list) outcome" where
  "load_config f =
     (case f of
        Parsed j \<Rightarrow> Returned j []
      | Malformed \<Rightarrow> Raised JSONDecodeError []
      | Missing \<Rightarrow> Returned default_config [(WARNING, ''Config not found, using defaults'')])"

section \<open>The LED controller (\<^verbatim>\<open>LEDController\<close>)\<close>

text \<open>
  \<^verbatim>\<open>__init__\<close> stores the pin, creates the stop event and drives the pin low.
  \<^verbatim>\<open>alert\<close> sets the stop event, waits up to one second for the thread started last,
  clears the event and starts a new thread on \<^verbatim>\<open>_run_alert\<close>. Its caller is left with
  the event cleared, the new thread as \<^verbatim>\<open>_alert_thread\<close> and one more activation
  started; a thread is recorded by the duration and the pattern it was started with. What
  a thread does while it runs is \<open>run_alert\<close> below.
\<close>

record led_controller =
  pin :: jvalue
  stop_alert :: bool
  alert_thread :: "(jvalue \<times> string) option"
  activations :: "(jvalue \<times> string) list"

definition LEDController :: "jvalue \<Rightarrow> led_controller" where
  "LEDController p = \<lparr>pin = p, stop_alert = False, alert_thread = None, activations = []\<rparr>"

definition alert :: "led_controller \<Rightarrow> jvalue \<Rightarrow> string \<Rightarrow> led_controller" where
  "alert l duration pattern =
     l\<lparr>stop_alert := False,
       alert_thread := Some (duration, pattern),
       activations := activations l @ [(duration, pattern)]\<rparr>"

subsection \<open>The activation thread (\<^verbatim>\<open>_run_alert\<close>, \<^verbatim>\<open>blink\<close>)\<close>

text \<open>
  The thread body reads the wall clock, polls the stop event, sleeps and drives the pin.
  In the model \<open>clk\<close> is the clock, \<open>stop t\<close> tells whether the event is set at time
  \<open>t\<close>, and \<open>sleeps\<close> lists how long each successive \<^verbatim>\<open>time.sleep\<close> really
  lasted; statements between two sleeps take no time. The result is the list of pin
  outputs with their times, \<open>True\<close> for HIGH. \<open>None\<close> means the thread is still running
  when the listed sleeps are used up.
\<close>

type_synonym gpio_event = "real \<times> bool"

text \<open>Lines 105 to 108: the polling loop of the solid pattern; it returns the clock at
  which the loop is left.\<close>

fun solid_wait :: "(real \<Rightarrow> bool) \<Rightarrow> real \<Rightarrow> real \<Rightarrow> real \<Rightarrow> real list \<Rightarrow> real option" where
  "solid_wait stop start_time duration clk sleeps =
     (if clk - start_time < duration then
        if stop clk then Some clk
        else (case sleeps of
                [] \<Rightarrow> None
              | s # rest \<Rightarrow> solid_wait stop start_time duration (clk + s) rest)
      else Some clk)"

declare solid_wait.simps [simp del]

text \<open>Lines 99 to 102 with \<^verbatim>\<open>blink(times=1, interval=0.2)\<close> inlined: on, sleep, off,
  sleep. The second test of the stop event, inside \<^verbatim>\<open>blink\<close>, happens at the same
  instant as the first.\<close>

fun blink_cycles ::
  "(real \<Rightarrow> bool) \<Rightarrow> real \<Rightarrow> real \<Rightarrow> real \<Rightarrow> real list \<Rightarrow> gpio_event list
     \<Rightarrow> (real \<times> gpio_event list) option" where
  "blink_cycles stop start_time duration clk sleeps evs =
     (if clk - start_time < duration then
        if stop clk then Some (clk, evs)
        else (case sleeps of
                s1 # s2 # rest \<Rightarrow>
                  blink_cycles stop start_time duration (clk + s1 + s2) rest
                    (evs @ [(clk, True), (clk + s1, False)])
              | _ \<Rightarrow> None)
      else Some (clk, evs))"

text \<open>\<^verbatim>\<open>_run_alert\<close>. A duration that is not a number makes the first comparison raise
  TypeError, in the solid branch after the pin went high.\<close>

definition run_alert ::
  "(real \<Rightarrow> bool) \<Rightarrow> jvalue \<Rightarrow> string \<Rightarrow> real \<Rightarrow> real list
     \<Rightarrow> (unit, gpio_event list) outcome option" where
  "run_alert stop duration pattern clk sleeps =
     (let start_time = clk
      in if pattern = ''blink'' then
           (case num_of duration of
              Inl e \<Rightarrow> Some (Raised e [])
            | Inr dur \<Rightarrow>
                (case blink_cycles stop start_time dur clk sleeps [] of
                   None \<Rightarrow> None
                 | Some (clk', evs) \<Rightarrow> Some (Returned () (evs @ [(clk', False)]))))
         else
           (case num_of duration of
              Inl e \<Rightarrow> Some (Raised e [(clk, True)])
            | Inr dur \<Rightarrow>
                (case solid_wait stop start_time dur clk sleeps of
                   None \<Rightarrow> None
                 | Some clk' \<Rightarrow> Some (Returned () [(clk, True), (clk', False)]))))"

declare blink_cycles.simps [simp del]

subsection \<open>\<^verbatim>\<open>alert\<close> in time\<close>







section \<open>Frames and the vision primitives\<close>

text \<open>
  A frame is what \<^verbatim>\<open>camera.read()\<close> hands over: None, or an array of rows of pixels,
  each pixel a list of 8-bit channel samples. Arrays are rectangular; their shape is read
  off the first row and the first pixel.
\<close>

datatype frame = NoneFrame | Pixels "8 word list list list"

type_synonym gray = "8 word list list"

text \<open>A Python slice bound on a sequence of length \<open>n\<close>: negative bounds count from the
  end, and every bound is clamped to \<open>0..n\<close>.\<close>

definition slice_bound :: "int \<Rightarrow> nat \<Rightarrow> nat" where
  "slice_bound i n = (if i < 0 then nat (max 0 (i + int n)) else min (nat i) n)"

definition py_slice :: "int \<Rightarrow> int \<Rightarrow> 'a list \<Rightarrow> 'a list" where
  "py_slice lo hi xs =
     (let n = length xs; a = slice_bound lo n; b = slice_bound hi n
      in take (b - a) (drop a xs))"

text \<open>\<^verbatim>\<open>frame[y:y+h, x:x+w]\<close>; None is not subscriptable.\<close>

fun crop :: "frame \<Rightarrow> int \<Rightarrow> int \<Rightarrow> int \<Rightarrow> int \<Rightarrow> py_error + frame" where
  "crop NoneFrame x y w h = Inl TypeError"
| "crop (Pixels rows) x y w h =
     Inr (Pixels (map (py_slice x (x + w)) (py_slice y (y + h) rows)))"

text \<open>\<^verbatim>\<open>x, y, w, h = roi\<close>: a list, a string or the keys of a dict unpack when they have
  exactly four items (ValueError otherwise); a number or a bool is not iterable.\<close>

fun unpack4 :: "jvalue \<Rightarrow> py_error + (jvalue \<times> jvalue \<times> jvalue \<times> jvalue)" where
  "unpack4 (JList xs) =
     (case xs of [a, b, c, d] \<Rightarrow> Inr (a, b, c, d) | _ \<Rightarrow> Inl ValueError)"
| "unpack4 (JStr s) =
     (case s of [a, b, c, d] \<Rightarrow> Inr (JStr [a], JStr [b], JStr [c], JStr [d])
      | _ \<Rightarrow> Inl ValueError)"
| "unpack4 (JObj kvs) =
     (case map fst kvs of [a, b, c, d] \<Rightarrow> Inr (JStr a, JStr b, JStr c, JStr d)
      | _ \<Rightarrow> Inl ValueError)"
| "unpack4 _ = Inl TypeError"

text \<open>
  The OpenCV calls of \<^verbatim>\<open>detect_motion\<close>. What the source fixes is modelled here: the
  input check of \<^verbatim>\<open>cvtColor\<close> (it rejects None, an empty array and any channel count
  other than 3 or 4 for \<^verbatim>\<open>COLOR_BGR2GRAY\<close>) and \<^verbatim>\<open>threshold\<close> with
  \<^verbatim>\<open>THRESH_BINARY\<close>. The numerical kernels are parameters, collected in a record.
\<close>

datatype morph_op = MORPH_CLOSE | MORPH_OPEN

record ('bg, 'c) vision =
  gray_of :: "8 word list \<Rightarrow> 8 word"
  createBackgroundSubtractorMOG2 :: "jvalue \<Rightarrow> jvalue \<Rightarrow> bool \<Rightarrow> 'bg"
  GaussianBlur :: "gray \<Rightarrow> gray"
  bg_apply :: "'bg \<Rightarrow> gray \<Rightarrow> 'bg \<times> gray"
  morphologyEx :: "morph_op \<Rightarrow> gray \<Rightarrow> gray"
  findContours :: "gray \<Rightarrow> 'c list"
  contourArea :: "'c \<Rightarrow> real"
  boundingRect :: "'c \<Rightarrow> int \<times> int \<times> int \<times> int"

fun cvtColor_BGR2GRAY :: "(8 word list \<Rightarrow> 8 word) \<Rightarrow> frame \<Rightarrow> py_error + gray" where
  "cvtColor_BGR2GRAY g NoneFrame = Inl CvError"
| "cvtColor_BGR2GRAY g (Pixels rows) =
     (case rows of
        [] \<Rightarrow> Inl CvError
      | r # _ \<Rightarrow>
          (case r of
             [] \<Rightarrow> Inl CvError
           | px # _ \<Rightarrow>
               if length px = 3 \<or> length px = 4 then Inr (map (map g) rows)
               else Inl CvError))"

text \<open>\<^verbatim>\<open>cv2.threshold(src, thresh, maxval, cv2.THRESH_BINARY)\<close>: a sample strictly above
  \<open>thresh\<close> becomes \<open>maxval\<close>, every other sample becomes 0.\<close>

definition threshold_binary :: "8 word \<Rightarrow> 8 word \<Rightarrow> gray \<Rightarrow> gray" where
  "threshold_binary thresh maxval img = map (map (\<lambda>v. if thresh < v then maxval else 0)) img"

section \<open>The detector (\<^verbatim>\<open>VehicleDetector\<close>)\<close>

record log_entry =
  timestamp :: string
  contour_count :: nat

record 'bg detector =
  config :: jvalue
  led :: led_controller
  bg_subtractor :: 'bg
  last_detection_time :: real
  detection_log :: "log_entry list"
  snapshots :: "(string \<times> frame \<times> (int \<times> int \<times> int \<times> int) list) list"
  logged :: "log_line list"

text \<open>\<^verbatim>\<open>__init__\<close>: load the configuration, build the LED controller and the background
  subtractor from it, start with \<^verbatim>\<open>last_detection_time = 0\<close> and an empty log.\<close>

definition init :: "('bg, 'c) vision \<Rightarrow> config_file \<Rightarrow> py_error + 'bg detector" where
  "init vis f =
     (case load_config f of
        Raised e _ \<Rightarrow> Inl e
      | Returned cfg msgs \<Rightarrow>
          (case getitem cfg ''led_pin'' of
             Inl e \<Rightarrow> Inl e
           | Inr p \<Rightarrow>
               (case getitem cfg ''bg_history'' of
                  Inl e \<Rightarrow> Inl e
                | Inr hist \<Rightarrow>
                    (case getitem cfg ''var_threshold'' of
                       Inl e \<Rightarrow> Inl e
                     | Inr vt \<Rightarrow>
                         Inr \<lparr>config = cfg,
                              led = LEDController p,
                              bg_subtractor = createBackgroundSubtractorMOG2 vis hist vt True,
                              last_detection_time = 0,
                              detection_log = [],
                              snapshots = [],
                              logged = msgs\<rparr>))))"

subsection \<open>\<^verbatim>\<open>detect_motion\<close>\<close>

text \<open>Lines 89 to 93: the region of interest. A falsy \<^verbatim>\<open>roi\<close> leaves the frame as it is.\<close>

definition apply_roi :: "jvalue \<Rightarrow> frame \<Rightarrow> py_error + frame" where
  "apply_roi cfg fr =
     (case get cfg ''roi'' of
        Inl e \<Rightarrow> Inl e
      | Inr roi \<Rightarrow>
          if truthy roi then
            (case unpack4 roi of
               Inl e \<Rightarrow> Inl e
             | Inr (x, y, w, h) \<Rightarrow>
                 (case (index_of x, index_of y, index_of w, index_of h) of
                    (Inr xi, Inr yi, Inr wi, Inr hi) \<Rightarrow> crop fr xi yi wi hi
                  | _ \<Rightarrow> Inl TypeError))
          else Inr fr)"

text \<open>Lines 89 to 113: from the frame to the contours \<^verbatim>\<open>findContours\<close> returns, before
  the area filter. The background subtractor is updated on the way.\<close>

definition find_regions ::
  "('bg, 'c) vision \<Rightarrow> 'bg detector \<Rightarrow> frame \<Rightarrow> ('c list, 'bg detector) outcome" where
  "find_regions vis d fr =
     (case apply_roi (config d) fr of
        Inl e \<Rightarrow> Raised e d
      | Inr fr1 \<Rightarrow>
          (case cvtColor_BGR2GRAY (gray_of vis) fr1 of
             Inl e \<Rightarrow> Raised e d
           | Inr gray \<Rightarrow>
               (let blurred = GaussianBlur vis gray;
                    (bg', fg_mask) = bg_apply vis (bg_subtractor d) blurred;
                    fg_mask1 = threshold_binary 250 255 fg_mask;
                    fg_mask2 = morphologyEx vis MORPH_CLOSE fg_mask1;
                    fg_mask3 = morphologyEx vis MORPH_OPEN fg_mask2
                in Returned (findContours vis fg_mask3) (d\<lparr>bg_subtractor := bg'\<rparr>))))"

text \<open>Lines 115 to 119: the comprehension reads \<^verbatim>\<open>config["min_contour_area"]\<close> once for
  each contour, so with no contour the key is never looked up.\<close>

fun significant :: "('c \<Rightarrow> real) \<Rightarrow> jvalue \<Rightarrow> 'c list \<Rightarrow> py_error + 'c list" where
  "significant area cfg [] = Inr []"
| "significant area cfg (c # cs) =
     (case getitem cfg ''min_contour_area'' of
        Inl e \<Rightarrow> Inl e
      | Inr v \<Rightarrow>
          (case num_of v of
             Inl e \<Rightarrow> Inl e
           | Inr a \<Rightarrow>
               (case significant area cfg cs of
                  Inl e \<Rightarrow> Inl e
                | Inr rest \<Rightarrow> Inr (if a < area c then c # rest else rest))))"

definition detect_motion ::
  "('bg, 'c) vision \<Rightarrow> 'bg detector \<Rightarrow> frame \<Rightarrow> (bool \<times> 'c list, 'bg detector) outcome" where
  "detect_motion vis d fr =
     (case find_regions vis d fr of
        Raised e d' \<Rightarrow> Raised e d'
      | Returned contours d' \<Rightarrow>
          (case significant (contourArea vis) (config d') contours of
             Inl e \<Rightarrow> Raised e d'
           | Inr significant_contours \<Rightarrow>
               Returned (0 < length significant_contours, significant_contours) d'))"

text \<open>Lines 95 to 121 on their own: what \<^verbatim>\<open>detect_motion\<close> does with the frame \<open>fr1\<close> that
  the ROI step hands over.\<close>

definition process_frame ::
  "('bg, 'c) vision \<Rightarrow> 'bg detector \<Rightarrow> frame \<Rightarrow> (bool \<times> 'c list, 'bg detector) outcome" where
  "process_frame vis d fr1 =
     (case cvtColor_BGR2GRAY (gray_of vis) fr1 of
        Inl e \<Rightarrow> Raised e d
      | Inr gray \<Rightarrow>
          (let blurred = GaussianBlur vis gray;
               (bg', fg_mask) = bg_apply vis (bg_subtractor d) blurred;
               fg_mask1 = threshold_binary 250 255 fg_mask;
               fg_mask2 = morphologyEx vis MORPH_CLOSE fg_mask1;
               fg_mask3 = morphologyEx vis MORPH_OPEN fg_mask2;
               contours = findContours vis fg_mask3;
               d' = d\<lparr>bg_subtractor := bg'\<rparr>
           in case significant (contourArea vis) (config d') contours of
                Inl e \<Rightarrow> Raised e d'
              | Inr significant_contours \<Rightarrow>
                  Returned (0 < length significant_contours, significant_contours) d'))"

subsection \<open>\<^verbatim>\<open>handle_detection\<close> and \<^verbatim>\<open>_save_detection\<close>\<close>

text \<open>The snapshot sink: the file name, the frame and the boxes drawn on its copy. File
  system failures of \<^verbatim>\<open>mkdir\<close> and \<^verbatim>\<open>imwrite\<close> are outside the model.\<close>

definition save_detection ::
  "('bg, 'c) vision \<Rightarrow> 'bg detector \<Rightarrow> frame \<Rightarrow> 'c list \<Rightarrow> string \<Rightarrow> (unit, 'bg detector) outcome" where
  "save_detection vis d fr contours ts =
     (case getitem (config d) ''detections_dir'' of
        Inl e \<Rightarrow> Raised e d
      | Inr dir \<Rightarrow>
          (case dir of
             JStr p \<Rightarrow>
               (case fr of
                  NoneFrame \<Rightarrow> Raised AttributeError d
                | Pixels rows \<Rightarrow>
                    (let filename = p @ ''/detection_''
                           @ map (\<lambda>c. if c = CHR '':'' then CHR ''-'' else c) ts @ ''.jpg''
                     in Returned ()
                          (d\<lparr>snapshots := snapshots d
                                 @ [(filename, fr, map (boundingRect vis) contours)],
                             logged := logged d
                                 @ [(INFO, ''Saved detection image: '' @ filename)]\<rparr>)))
           | _ \<Rightarrow> Raised TypeError d))"

text \<open>\<open>current_time\<close> is the value \<^verbatim>\<open>time.time()\<close> returned and \<open>ts\<close> the string
  \<^verbatim>\<open>datetime.now().isoformat()\<close> returned.\<close>

definition handle_detection ::
  "('bg, 'c) vision \<Rightarrow> 'bg detector \<Rightarrow> real \<Rightarrow> string \<Rightarrow> frame \<Rightarrow> 'c list
     \<Rightarrow> (unit, 'bg detector) outcome" where
  "handle_detection vis d current_time ts fr contours =
     (case getitem (config d) ''detection_cooldown'' of
        Inl e \<Rightarrow> Raised e d
      | Inr cd \<Rightarrow>
          (case num_of cd of
             Inl e \<Rightarrow> Raised e d
           | Inr cooldown \<Rightarrow>
               if current_time - last_detection_time d < cooldown then Returned () d
               else
                 (let d1 = d\<lparr>last_detection_time := current_time,
                             logged := logged d @ [(INFO, ''Vehicle detected at '' @ ts)]\<rparr>
                  in case getitem (config d1) ''alert_duration'' of
                       Inl e \<Rightarrow> Raised e d1
                     | Inr dur \<Rightarrow>
                         (let d2 = d1\<lparr>led := alert (led d1) dur ''solid''\<rparr>;
                              d3 = d2\<lparr>detection_log := detection_log d2
                                        @ [\<lparr>timestamp = ts, contour_count = length contours\<rparr>]\<rparr>
                          in case get (config d3) ''save_detections'' of
                               Inl e \<Rightarrow> Raised e d3
                             | Inr sv \<Rightarrow>
                                 if truthy sv then save_detection vis d3 fr contours ts
                                 else Returned () d3))))"

subsection \<open>The detection loop (\<^verbatim>\<open>run\<close>, lines 171 to 183)\<close>

text \<open>
  One pass of the loop body reads the camera, the clock and the calendar. The loop has no
  exit of its own; \<open>run_loop\<close> is the loop over the readings of its first passes, and
  stops early where an exception leaves the loop.
\<close>

record reading =
  ret :: bool
  grabbed :: frame
  now :: real
  iso :: string

definition run_iteration ::
  "('bg, 'c) vision \<Rightarrow> 'bg detector \<Rightarrow> reading \<Rightarrow> (unit, 'bg detector) outcome" where
  "run_iteration vis d r =
     (if \<not> ret r then Returned () (d\<lparr>logged := logged d @ [(ERROR, ''Failed to read frame'')]\<rparr>)
      else
        (case detect_motion vis d (grabbed r) of
           Raised e d' \<Rightarrow> Raised e d'
         | Returned (detected, contours) d' \<Rightarrow>
             if detected then handle_detection vis d' (now r) (iso r) (grabbed r) contours
             else Returned () d'))"

fun run_loop ::
  "('bg, 'c) vision \<Rightarrow> 'bg detector \<Rightarrow> reading list \<Rightarrow> (unit, 'bg detector) outcome" where
  "run_loop vis d [] = Returned () d"
| "run_loop vis d (r # rs) =
     (case run_iteration vis d r of
        Raised e d' \<Rightarrow> Raised e d'
      | Returned _ d' \<Rightarrow> run_loop vis d' rs)"

subsection \<open>Accepted detections of a run\<close>

text \<open>The clock readings of the passes of the loop at which an entry was appended to
  the detection log.\<close>

fun accepted_times ::
  "('bg, 'c) vision \<Rightarrow> 'bg detector \<Rightarrow> reading list \<Rightarrow> real list" where
  "accepted_times vis d [] = []"
| "accepted_times vis d (r # rs) =
     (let res = run_iteration vis d r; d' = state_of res
      in (if length (detection_log d) < length (detection_log d') then [now r] else [])
         @ (if raised res then [] else accepted_times vis d' rs))"

subsection \<open>Regions extracted in a run\<close>

text \<open>The contours \<^verbatim>\<open>findContours\<close> returned in one pass of the loop, before the area
  filter, and those of all passes of a run.\<close>

definition regions_of_pass :: "('bg, 'c) vision \<Rightarrow> 'bg detector \<Rightarrow> reading \<Rightarrow> 'c list" where
  "regions_of_pass vis d r =
     (if ret r then
        (case find_regions vis d (grabbed r) of Returned cs _ \<Rightarrow> cs | Raised _ _ \<Rightarrow> [])
      else [])"

fun regions_seen :: "('bg, 'c) vision \<Rightarrow> 'bg detector \<Rightarrow> reading list \<Rightarrow> 'c list" where
  "regions_seen vis d [] = []"
| "regions_seen vis d (r # rs) =
     regions_of_pass vis d r
     @ (let res = run_iteration vis d r
        in if raised res then [] else regions_seen vis (state_of res) rs)"

subsection \<open>Malformed frames\<close>

text \<open>A frame with no pixel of three or four channels: None, an array of size zero, or an
  array whose channel count \<^verbatim>\<open>COLOR_BGR2GRAY\<close> does not take.\<close>

fun malformed :: "frame \<Rightarrow> bool" where
  "malformed NoneFrame = True"
| "malformed (Pixels rows) = (\<forall>r \<in> set rows. \<forall>px \<in> set r. length px \<noteq> 3 \<and> length px \<noteq> 4)"

subsection \<open>The shadow band of the foreground mask\<close>

text \<open>
  MOG2 with \<^verbatim>\<open>detectShadows=True\<close> marks background 0, shadow 127 (its default shadow
  value, which the source keeps) and foreground 255. The shadow band is every non-zero
  sample that the threshold of 250 does not let through. \<open>shadow_free vis\<close> is \<open>vis\<close> with
  the shadow samples of the subtractor's mask turned into background.
\<close>

definition in_shadow_band :: "8 word \<Rightarrow> bool" where
  "in_shadow_band v \<longleftrightarrow> 0 < v \<and> v \<le> 250"

definition suppress_shadows :: "gray \<Rightarrow> gray" where
  "suppress_shadows m = map (map (\<lambda>v. if in_shadow_band v then 0 else v)) m"

definition shadow_free :: "('bg, 'c) vision \<Rightarrow> ('bg, 'c) vision" where
  "shadow_free vis =
     vis\<lparr>bg_apply := (\<lambda>bg img. case bg_apply vis bg img of (bg', m) \<Rightarrow> (bg', suppress_shadows m))\<rparr>"

section \<open>A stand-in for the camera and OpenCV\<close>

text \<open>
  \<open>sim_vision\<close> is a small executable instance of the vision primitives (frame
  differencing against the previous frame, darker samples marked 127 as shadows, no
  smoothing, no morphology, one contour holding every non-zero sample), in the role the
  source gives \<^verbatim>\<open>MockGPIO\<close>. It serves to run the model on concrete inputs; the
  general theorems below hold for every instance of the primitives.
\<close>

definition sim_vision :: "(gray option, (nat \<times> nat) list) vision" where
  "sim_vision =
     \<lparr>gray_of = (\<lambda>px. case px of b # g # r # _ \<Rightarrow> g | _ \<Rightarrow> 0),
      createBackgroundSubtractorMOG2 = (\<lambda>history varThreshold detectShadows. None),
      GaussianBlur = (\<lambda>img. img),
      bg_apply = (\<lambda>bg img.
         (Some img,
          case bg of
            None \<Rightarrow> map (map (\<lambda>v. 0)) img
          | Some prev \<Rightarrow>
              map2 (map2 (\<lambda>p v. if v = p then 0 else if v < p then 127 else 255)) prev img)),
      morphologyEx = (\<lambda>op img. img),
      findContours = (\<lambda>img.
         let pts = concat (map (\<lambda>(i, row). map (\<lambda>(j, v). (i, j))
                       (filter (\<lambda>(j, v). v \<noteq> 0) (enumerate 0 row))) (enumerate 0 img))
         in if pts = [] then [] else [pts]),
      contourArea = (\<lambda>c. real (length c)),
      boundingRect = (\<lambda>c.
         let xs = map (\<lambda>p. int (snd p)) c; ys = map (\<lambda>p. int (fst p)) c;
             x0 = fold min xs (hd xs); y0 = fold min ys (hd ys)
         in (x0, y0, fold max xs (hd xs) - x0 + 1, fold max ys (hd ys) - y0 + 1))\<rparr>"

definition fresh_default :: "gray option detector" where
  "fresh_default =
     \<lparr>config = default_config, led = LEDController (JInt 17), bg_subtractor = None,
      last_detection_time = 0, detection_log = [], snapshots = [],
      logged = [(WARNING, ''Config not found, using defaults'')]\<rparr>"

definition small_config :: jvalue where
  "small_config = JObj
     [(''led_pin'', JInt 17),
      (''min_contour_area'', JInt 1),
      (''detection_cooldown'', JFloat 2.0),
      (''alert_duration'', JFloat 5.0),
      (''bg_history'', JInt 500),
      (''var_threshold'', JInt 50)]"

definition sim_detector :: "gray option detector" where
  "sim_detector =
     \<lparr>config = small_config, led = LEDController (JInt 17), bg_subtractor = None,
      last_detection_time = 0, detection_log = [], snapshots = [], logged = []\<rparr>"

definition dark :: frame where "dark = Pixels [[[0, 0, 0], [0, 0, 0]]]"
definition bright :: frame where "bright = Pixels [[[9, 9, 9], [9, 9, 9]]]"

definition sim_readings :: "reading list" where
  "sim_readings =
     [\<lparr>ret = True, grabbed = dark, now = 100, iso = ''a''\<rparr>,
      \<lparr>ret = True, grabbed = bright, now = 101, iso = ''b''\<rparr>,
      \<lparr>ret = True, grabbed = dark, now = 101.5, iso = ''c''\<rparr>,
      \<lparr>ret = True, grabbed = bright, now = 102, iso = ''d''\<rparr>,
      \<lparr>ret = False, grabbed = NoneFrame, now = 102.5, iso = ''e''\<rparr>,
      \<lparr>ret = True, grabbed = dark, now = 103, iso = ''f''\<rparr>,
      \<lparr>ret = True, grabbed = bright, now = 103.5, iso = ''g''\<rparr>]"

definition quiet_readings :: "reading list" where
  "quiet_readings =
     [\<lparr>ret = True, grabbed = Pixels [[[0, 0, 0]]], now = 100, iso = ''a''\<rparr>,
      \<lparr>ret = True, grabbed = Pixels [[[9, 9, 9]]], now = 101, iso = ''b''\<rparr>,
      \<lparr>ret = True, grabbed = Pixels [[[0, 0, 0]]], now = 104, iso = ''c''\<rparr>,
      \<lparr>ret = True, grabbed = Pixels [[[9, 9, 9]]], now = 107, iso = ''d''\<rparr>]"

definition roi_config :: jvalue where
  "roi_config = JObj [(''roi'', JList [JInt 1, JInt 0, JInt 1, JInt 1]), (''min_contour_area'', JInt 1)]"

definition partial_config :: jvalue where
  "partial_config = JObj [(''led_pin'', JInt 4), (''bg_history'', JInt 500), (''var_threshold'', JInt 50)]"

definition partial_detector :: "gray option detector" where
  "partial_detector =
     \<lparr>config = partial_config, led = LEDController (JInt 4), bg_subtractor = None,
      last_detection_time = 0, detection_log = [], snapshots = [], logged = []\<rparr>"

definition roi_detector :: "gray option detector" where
  "roi_detector = sim_detector\<lparr>config := roi_config, bg_subtractor := Some [[0, 0]]\<rparr>"



section \<open>Properties\<close>

subsection \<open>Frame conditions and evaluation lemmas\<close>

lemma find_regions_keeps:
  "config (state_of (find_regions vis d fr)) = config d"
  "led (state_of (find_regions vis d fr)) = led d"
  "last_detection_time (state_of (find_regions vis d fr)) = last_detection_time d"
  "detection_log (state_of (find_regions vis d fr)) = detection_log d"
  "snapshots (state_of (find_regions vis d fr)) = snapshots d"
  "logged (state_of (find_regions vis d fr)) = logged d"
  by (auto simp: find_regions_def Let_def split: sum.splits prod.splits)

lemma detect_motion_keeps:
  "config (state_of (detect_motion vis d fr)) = config d"
  "led (state_of (detect_motion vis d fr)) = led d"
  "last_detection_time (state_of (detect_motion vis d fr)) = last_detection_time d"
  "detection_log (state_of (detect_motion vis d fr)) = detection_log d"
  "snapshots (state_of (detect_motion vis d fr)) = snapshots d"
  "logged (state_of (detect_motion vis d fr)) = logged d"
  using find_regions_keeps [of vis d fr]
  by (auto simp: detect_motion_def split: outcome.splits sum.splits)

lemma handle_within_cooldown:
  assumes "getitem (config d) ''detection_cooldown'' = Inr cd" and "num_of cd = Inr c"
    and "t - last_detection_time d < c"
  shows "handle_detection vis d t ts fr cs = Returned () d"
  using assms by (simp add: handle_detection_def)

lemma save_detection_keeps:
  "config (state_of (save_detection vis d fr cs ts)) = config d \<and>
   led (state_of (save_detection vis d fr cs ts)) = led d \<and>
   last_detection_time (state_of (save_detection vis d fr cs ts)) = last_detection_time d \<and>
   detection_log (state_of (save_detection vis d fr cs ts)) = detection_log d"
  by (auto simp: save_detection_def Let_def split: sum.splits jvalue.splits frame.splits)

lemma handle_after_cooldown:
  assumes "getitem (config d) ''detection_cooldown'' = Inr cd" and "num_of cd = Inr c"
    and "getitem (config d) ''alert_duration'' = Inr dur"
    and "c \<le> t - last_detection_time d"
  shows "last_detection_time (state_of (handle_detection vis d t ts fr cs)) = t"
    and "led (state_of (handle_detection vis d t ts fr cs)) = alert (led d) dur ''solid''"
    and "detection_log (state_of (handle_detection vis d t ts fr cs))
           = detection_log d @ [\<lparr>timestamp = ts, contour_count = length cs\<rparr>]"
    and "config (state_of (handle_detection vis d t ts fr cs)) = config d"
  using assms by (auto simp: handle_detection_def Let_def save_detection_keeps split: sum.splits)

lemma handle_cases:
  assumes "getitem (config d) ''detection_cooldown'' = Inr cd" and "num_of cd = Inr c"
  shows "config (state_of (handle_detection vis d t ts fr cs)) = config d \<and>
     (detection_log (state_of (handle_detection vis d t ts fr cs)) = detection_log d \<and>
      last_detection_time (state_of (handle_detection vis d t ts fr cs)) = last_detection_time d \<or>
      last_detection_time (state_of (handle_detection vis d t ts fr cs)) = t \<and>
      c \<le> t - last_detection_time d)"
  using assms by (auto simp: handle_detection_def Let_def save_detection_keeps split: sum.splits)

lemma iteration_cases:
  assumes "getitem (config d) ''detection_cooldown'' = Inr cd" and "num_of cd = Inr c"
  shows "config (state_of (run_iteration vis d r)) = config d \<and>
     (detection_log (state_of (run_iteration vis d r)) = detection_log d \<and>
      last_detection_time (state_of (run_iteration vis d r)) = last_detection_time d \<or>
      last_detection_time (state_of (run_iteration vis d r)) = now r \<and>
      c \<le> now r - last_detection_time d)"
proof (cases "ret r")
  case False
  then show ?thesis by (simp add: run_iteration_def)
next
  case True
  show ?thesis
  proof (cases "detect_motion vis d (grabbed r)")
    case (Raised e d')
    with detect_motion_keeps [of vis d "grabbed r"] True show ?thesis
      by (simp add: run_iteration_def)
  next
    case (Returned v d')
    with detect_motion_keeps [of vis d "grabbed r"]
    have eqs: "config d' = config d" "detection_log d' = detection_log d"
      "last_detection_time d' = last_detection_time d"
      by simp_all
    obtain detected contours where v: "v = (detected, contours)" by (cases v)
    show ?thesis
    proof (cases detected)
      case False
      with True Returned v eqs show ?thesis by (simp add: run_iteration_def)
    next
      case det: True
      from assms eqs have "getitem (config d') ''detection_cooldown'' = Inr cd" by simp
      from handle_cases [OF this assms(2), of vis "now r" "iso r" "grabbed r" contours]
      show ?thesis using True Returned v det eqs by (simp add: run_iteration_def)
    qed
  qed
qed

lemma accepted_after_last:
  assumes "getitem (config d) ''detection_cooldown'' = Inr cd" and "num_of cd = Inr c" and "0 \<le> c"
  shows "\<forall>y \<in> set (accepted_times vis d rs). c \<le> y - last_detection_time d"
  using assms(1)
proof (induction rs arbitrary: d)
  case Nil
  then show ?case by simp
next
  case (Cons r rs)
  let ?d' = "state_of (run_iteration vis d r)"
  note ic = iteration_cases [OF Cons.prems assms(2), of vis r]
  then have cfg: "getitem (config ?d') ''detection_cooldown'' = Inr cd"
    using Cons.prems by simp
  have later: "\<forall>y \<in> set (accepted_times vis ?d' rs). c \<le> y - last_detection_time d"
  proof
    fix y assume "y \<in> set (accepted_times vis ?d' rs)"
    with Cons.IH [OF cfg] have "c \<le> y - last_detection_time ?d'" by blast
    with ic assms(3) show "c \<le> y - last_detection_time d" by auto
  qed
  have head: "length (detection_log d) < length (detection_log ?d') \<Longrightarrow>
      c \<le> now r - last_detection_time d"
    using ic by auto
  show ?case using later head by (auto simp: Let_def)
qed

lemma accepted_separated:
  assumes "getitem (config d) ''detection_cooldown'' = Inr cd" and "num_of cd = Inr c" and "0 \<le> c"
  shows "sorted_wrt (\<lambda>x y. c \<le> y - x) (accepted_times vis d rs)"
  using assms(1)
proof (induction rs arbitrary: d)
  case Nil
  then show ?case by simp
next
  case (Cons r rs)
  let ?d' = "state_of (run_iteration vis d r)"
  note ic = iteration_cases [OF Cons.prems assms(2), of vis r]
  then have cfg: "getitem (config ?d') ''detection_cooldown'' = Inr cd"
    using Cons.prems by simp
  note tl = Cons.IH [OF cfg]
  show ?case
  proof (cases "length (detection_log d) < length (detection_log ?d')")
    case False
    with tl show ?thesis by (simp add: Let_def)
  next
    case True
    with ic have "last_detection_time ?d' = now r" by auto
    with accepted_after_last [OF cfg assms(2,3), of vis rs]
    have "\<forall>y \<in> set (accepted_times vis ?d' rs). c \<le> y - now r" by simp
    with True tl show ?thesis by (simp add: Let_def)
  qed
qed

lemma init_missing: "init sim_vision Missing = Inr fresh_default"
  by (simp add: init_def load_config_def default_config_def fresh_default_def sim_vision_def)

lemma init_missing_gen:
  "init vis Missing = Inr \<lparr>config = default_config, led = LEDController (JInt 17),
      bg_subtractor = createBackgroundSubtractorMOG2 vis (JInt 500) (JInt 50) True,
      last_detection_time = 0, detection_log = [], snapshots = [],
      logged = [(WARNING, ''Config not found, using defaults'')]\<rparr>"
  by (simp add: init_def load_config_def default_config_def)

lemma default_lookups:
  "getitem default_config ''detection_cooldown'' = Inr (JFloat 2)"
  "getitem default_config ''alert_duration'' = Inr (JFloat 5)"
  "get default_config ''save_detections'' = Inr (JBool False)"
  "get default_config ''roi'' = Inr JNull"
  "getitem default_config ''min_contour_area'' = Inr (JInt 5000)"
  by (simp_all add: default_config_def)

lemma small_lookups:
  "getitem small_config ''detection_cooldown'' = Inr (JFloat 2)"
  "getitem small_config ''alert_duration'' = Inr (JFloat 5)"
  "get small_config ''save_detections'' = Inr JNull"
  "get small_config ''roi'' = Inr JNull"
  "getitem small_config ''min_contour_area'' = Inr (JInt 1)"
  by (simp_all add: small_config_def)

lemma sim_run: "accepted_times sim_vision sim_detector sim_readings = [101, 103.5]"
  by (simp add: sim_readings_def sim_detector_def run_iteration_def detect_motion_def
      find_regions_def apply_roi_def small_lookups sim_vision_def dark_def bright_def
      threshold_binary_def handle_detection_def Let_def alert_def LEDController_def)

lemma significant_filter:
  assumes "getitem cfg ''min_contour_area'' = Inr v" and "num_of v = Inr a"
  shows "significant area cfg cs = Inr (filter (\<lambda>c. a < area c) cs)"
  using assms by (induction cs) simp_all

lemma detect_motion_eq:
  assumes "find_regions vis d fr = Returned cs d'"
    and "getitem (config d) ''min_contour_area'' = Inr v" and "num_of v = Inr a"
  shows "detect_motion vis d fr
     = Returned ((\<exists>c \<in> set cs. a < contourArea vis c), filter (\<lambda>c. a < contourArea vis c) cs) d'"
proof -
  from find_regions_keeps(1) [of vis d fr] assms(1) have "config d' = config d" by simp
  with assms(2,3) have "significant (contourArea vis) (config d') cs
      = Inr (filter (\<lambda>c. a < contourArea vis c) cs)"
    by (simp add: significant_filter)
  with assms(1) show ?thesis
    by (auto simp: detect_motion_def filter_empty_conv)
qed

lemma quiet_iteration:
  assumes "getitem (config d) ''min_contour_area'' = Inr v" and "num_of v = Inr a"
    and "\<forall>c \<in> set (regions_of_pass vis d r). contourArea vis c \<le> a"
  shows "config (state_of (run_iteration vis d r)) = config d \<and>
     led (state_of (run_iteration vis d r)) = led d \<and>
     last_detection_time (state_of (run_iteration vis d r)) = last_detection_time d \<and>
     detection_log (state_of (run_iteration vis d r)) = detection_log d \<and>
     snapshots (state_of (run_iteration vis d r)) = snapshots d"
proof (cases "ret r")
  case False
  then show ?thesis by (simp add: run_iteration_def)
next
  case True
  show ?thesis
  proof (cases "find_regions vis d (grabbed r)")
    case (Raised e d')
    with find_regions_keeps [of vis d "grabbed r"] True show ?thesis
      by (simp add: run_iteration_def detect_motion_def)
  next
    case (Returned cs d')
    from assms(3) True Returned have "\<forall>c \<in> set cs. contourArea vis c \<le> a"
      by (simp add: regions_of_pass_def)
    then have "\<not> (\<exists>c \<in> set cs. a < contourArea vis c)" by auto
    with detect_motion_eq [OF Returned assms(1,2)]
    have "\<exists>sig. detect_motion vis d (grabbed r) = Returned (False, sig) d'" by simp
    with find_regions_keeps [of vis d "grabbed r"] Returned True show ?thesis
      by (auto simp: run_iteration_def)
  qed
qed

lemma quiet_run:
  assumes "num_of v = Inr a"
  shows "getitem (config d) ''min_contour_area'' = Inr v \<Longrightarrow>
     \<forall>c \<in> set (regions_seen vis d rs). contourArea vis c \<le> a \<Longrightarrow>
     led (state_of (run_loop vis d rs)) = led d \<and>
     last_detection_time (state_of (run_loop vis d rs)) = last_detection_time d \<and>
     detection_log (state_of (run_loop vis d rs)) = detection_log d \<and>
     snapshots (state_of (run_loop vis d rs)) = snapshots d"
proof (induction rs arbitrary: d)
  case Nil
  then show ?case by simp
next
  case (Cons r rs)
  from Cons.prems(2) have "\<forall>c \<in> set (regions_of_pass vis d r). contourArea vis c \<le> a"
    by simp
  note q = quiet_iteration [OF Cons.prems(1) assms this]
  show ?case
  proof (cases "run_iteration vis d r")
    case (Raised e d')
    with q show ?thesis by simp
  next
    case (Returned u d')
    with q Cons.prems(1) have cfg: "getitem (config d') ''min_contour_area'' = Inr v" by simp
    from Cons.prems(2) Returned have "\<forall>c \<in> set (regions_seen vis d' rs). contourArea vis c \<le> a"
      by (auto simp: Let_def)
    from Cons.IH [OF cfg this] q Returned show ?thesis by simp
  qed
qed

lemma set_py_slice: "set (py_slice lo hi xs) \<subseteq> set xs"
  by (auto simp: py_slice_def Let_def dest: in_set_takeD in_set_dropD)

lemma cvtColor_malformed: "malformed fr \<Longrightarrow> cvtColor_BGR2GRAY g fr = Inl CvError"
  by (cases fr) (auto split: list.splits)

lemma crop_malformed: "malformed fr \<Longrightarrow> crop fr x y w h = Inr fr' \<Longrightarrow> malformed fr'"
proof (cases fr)
  case NoneFrame
  then show "crop fr x y w h = Inr fr' \<Longrightarrow> malformed fr'" by simp
next
  case (Pixels rows)
  assume m: "malformed fr" and c: "crop fr x y w h = Inr fr'"
  from c Pixels have fr': "fr' = Pixels (map (py_slice x (x + w)) (py_slice y (y + h) rows))" by auto
  show "malformed fr'"
    unfolding fr' malformed.simps
  proof (intro ballI)
    fix r px assume "r \<in> set (map (py_slice x (x + w)) (py_slice y (y + h) rows))" "px \<in> set r"
    then obtain r0 where "r0 \<in> set (py_slice y (y + h) rows)" "px \<in> set (py_slice x (x + w) r0)"
      by auto
    then have "r0 \<in> set rows" "px \<in> set r0"
      using set_py_slice [of y "y + h" rows] set_py_slice [of x "x + w" r0] by auto
    with m Pixels show "length px \<noteq> 3 \<and> length px \<noteq> 4" by auto
  qed
qed

lemma apply_roi_malformed: "malformed fr \<Longrightarrow> apply_roi cfg fr = Inr fr' \<Longrightarrow> malformed fr'"
  by (auto simp: apply_roi_def split: sum.splits if_splits prod.splits dest: crop_malformed)

lemma find_regions_malformed:
  assumes "malformed fr"
  shows "\<exists>e. find_regions vis d fr = Raised e d"
proof (cases "apply_roi (config d) fr")
  case (Inl e)
  then show ?thesis by (simp add: find_regions_def)
next
  case (Inr fr1)
  with assms have "malformed fr1" by (rule apply_roi_malformed)
  then have "cvtColor_BGR2GRAY (gray_of vis) fr1 = Inl CvError" by (rule cvtColor_malformed)
  with Inr show ?thesis by (simp add: find_regions_def)
qed

lemma apply_roi_cases:
  assumes "apply_roi cfg fr = Inr fr'"
  shows "\<exists>roi. get cfg ''roi'' = Inr roi \<and>
     (\<not> truthy roi \<and> fr' = fr \<or>
      (\<exists>x y w h xi yi wi hi. roi = JList [x, y, w, h] \<and> index_of x = Inr xi \<and> index_of y = Inr yi \<and>
         index_of w = Inr wi \<and> index_of h = Inr hi \<and> crop fr xi yi wi hi = Inr fr'))"
proof (cases "get cfg ''roi''")
  case (Inl e)
  with assms show ?thesis by (simp add: apply_roi_def)
next
  case (Inr roi)
  show ?thesis
  proof (cases "truthy roi")
    case False
    with Inr assms show ?thesis by (simp add: apply_roi_def)
  next
    case True
    with Inr assms obtain x y w h where u: "unpack4 roi = Inr (x, y, w, h)"
      by (auto simp: apply_roi_def split: sum.splits)
    with Inr assms True obtain xi yi wi hi where
      i: "index_of x = Inr xi" "index_of y = Inr yi" "index_of w = Inr wi" "index_of h = Inr hi"
        "crop fr xi yi wi hi = Inr fr'"
      by (auto simp: apply_roi_def split: sum.splits)
    have "roi = JList [x, y, w, h]"
    proof (cases roi)
      case (JList xs)
      with u show ?thesis by (auto split: list.splits)
    next
      case (JStr s)
      with u i show ?thesis by (auto split: list.splits)
    next
      case (JObj kvs)
      with u i show ?thesis by (auto split: list.splits)
    qed (use u in auto)
    with Inr i show ?thesis by blast
  qed
qed

lemma threshold_suppress:
  "threshold_binary 250 255 (suppress_shadows m) = threshold_binary 250 255 m"
  by (simp add: threshold_binary_def suppress_shadows_def in_shadow_band_def leD)

lemma threshold_shadow_only:
  assumes "\<forall>row \<in> set m. \<forall>v \<in> set row. v \<le> 250"
  shows "threshold_binary 250 255 m = map (map (\<lambda>v. 0)) m"
  using assms by (simp add: threshold_binary_def leD)

lemma find_regions_shadow_free: "find_regions (shadow_free vis) d fr = find_regions vis d fr"
  by (simp add: find_regions_def shadow_free_def threshold_suppress Let_def
      split: sum.splits prod.splits)

lemma detect_motion_shadow_free: "detect_motion (shadow_free vis) d fr = detect_motion vis d fr"
proof -
  have "contourArea (shadow_free vis) = contourArea vis" by (simp add: shadow_free_def)
  then show ?thesis by (simp only: detect_motion_def find_regions_shadow_free)
qed

lemma sim_quiet_regions: "regions_seen sim_vision sim_detector quiet_readings = [[(0, 0)], [(0, 0)]]"
  by (simp add: quiet_readings_def sim_detector_def regions_of_pass_def run_iteration_def
      detect_motion_def find_regions_def apply_roi_def small_lookups sim_vision_def
      threshold_binary_def Let_def)

lemma sim_find_bright:
  "find_regions sim_vision (sim_detector\<lparr>bg_subtractor := Some [[0, 0]]\<rparr>) bright
     = Returned [[(0, 0), (0, 1)]] (sim_detector\<lparr>bg_subtractor := Some [[9, 9]]\<rparr>)"
  by (simp add: sim_detector_def find_regions_def apply_roi_def small_lookups sim_vision_def
      threshold_binary_def Let_def bright_def)

lemma solid_wait_poll:
  assumes "\<forall>t. \<not> stop t" and "\<forall>s \<in> set sleeps. 1 / 10 \<le> s"
    and "duration - (clk - start_time) \<le> real (length sleeps) / 10"
  shows "\<exists>t. solid_wait stop start_time duration clk sleeps = Some t \<and>
     duration \<le> t - start_time \<and>
     (if clk - start_time < duration
      then \<exists>k < length sleeps. t = clk + sum_list (take (Suc k) sleeps) \<and>
             clk + sum_list (take k sleeps) - start_time < duration
      else t = clk)"
  using assms(2,3)
proof (induction sleeps arbitrary: clk)
  case Nil
  then show ?case by (simp add: solid_wait.simps [of stop start_time duration clk])
next
  case (Cons s rest)
  show ?case
  proof (cases "clk - start_time < duration")
    case False
    then show ?thesis by (simp add: solid_wait.simps [of stop start_time duration clk])
  next
    case True
    from Cons.prems have s: "1 / 10 \<le> s" and r: "\<forall>s \<in> set rest. 1 / 10 \<le> s" by simp_all
    from Cons.prems(2) s have "duration - (clk + s - start_time) \<le> real (length rest) / 10"
      by (simp add: field_simps)
    from Cons.IH [OF r this] obtain t where
      t: "solid_wait stop start_time duration (clk + s) rest = Some t" "duration \<le> t - start_time"
        "if clk + s - start_time < duration
         then \<exists>k < length rest. t = clk + s + sum_list (take (Suc k) rest) \<and>
                clk + s + sum_list (take k rest) - start_time < duration
         else t = clk + s"
      by blast
    have eq: "solid_wait stop start_time duration clk (s # rest) = Some t"
      using True assms(1) t(1) by (simp add: solid_wait.simps [of stop start_time duration clk])
    have "\<exists>k < length (s # rest). t = clk + sum_list (take (Suc k) (s # rest)) \<and>
             clk + sum_list (take k (s # rest)) - start_time < duration"
    proof (cases "clk + s - start_time < duration")
      case False
      with t(3) True show ?thesis by (intro exI [of _ 0]) simp
    next
      case T: True
      with t(3) obtain k where "k < length rest" "t = clk + s + sum_list (take (Suc k) rest)"
        "clk + s + sum_list (take k rest) - start_time < duration" by auto
      then show ?thesis by (intro exI [of _ "Suc k"]) (simp add: add.assoc)
    qed
    with eq t(2) True show ?thesis by simp
  qed
qed

lemma detect_motion_after_roi:
  "detect_motion vis d fr =
     (case apply_roi (config d) fr of Inl e \<Rightarrow> Raised e d | Inr fr1 \<Rightarrow> process_frame vis d fr1)"
  by (simp add: detect_motion_def find_regions_def process_frame_def Let_def
      split: sum.splits prod.splits)

lemma apply_roi_four:
  assumes "get cfg ''roi'' = Inr (JList [x, y, w, h])"
    and "index_of x = Inr xi" "index_of y = Inr yi" "index_of w = Inr wi" "index_of h = Inr hi"
  shows "apply_roi cfg fr = crop fr xi yi wi hi"
  using assms by (simp add: apply_roi_def)

lemma apply_roi_other:
  assumes "get cfg ''roi'' = Inr roi" and "truthy roi"
    and "\<not> (\<exists>x y w h xi yi wi hi. roi = JList [x, y, w, h] \<and> index_of x = Inr xi \<and>
            index_of y = Inr yi \<and> index_of w = Inr wi \<and> index_of h = Inr hi)"
  shows "\<exists>e. apply_roi cfg fr = Inl e"
proof (cases "apply_roi cfg fr")
  case (Inl e)
  then show ?thesis by blast
next
  case (Inr fr')
  from apply_roi_cases [OF this] assms show ?thesis by auto
qed









subsection \<open>The cooldown gate\<close>

text \<open>
  C1. A call of \<^verbatim>\<open>handle_detection\<close> at time \<open>t\<close> accepts the detection (sets
  \<^verbatim>\<open>last_detection_time\<close> to \<open>t\<close>, triggers a solid alert of the configured duration and
  appends a log entry) exactly when \<open>t - last_detection_time\<close> is at least the configured
  cooldown; and in every run of the loop, any two clock readings at which a detection was
  accepted lie at least the cooldown apart. The configuration holds a numeric, non-negative
  cooldown (the invariant of the data model) and an alert duration.
\<close>

theorem cooldown_gate_accepts_iff_elapsed:
  assumes "getitem (config d) ''detection_cooldown'' = Inr cd" and "num_of cd = Inr c"
    and "getitem (config d) ''alert_duration'' = Inr dur"
  shows "((last_detection_time (state_of (handle_detection vis d t ts fr cs)) = t \<and>
           led (state_of (handle_detection vis d t ts fr cs)) = alert (led d) dur ''solid'' \<and>
           detection_log (state_of (handle_detection vis d t ts fr cs))
             = detection_log d @ [\<lparr>timestamp = ts, contour_count = length cs\<rparr>])
          \<longleftrightarrow> c \<le> t - last_detection_time d) \<and>
         (0 \<le> c \<longrightarrow> sorted_wrt (\<lambda>x y. c \<le> y - x) (accepted_times vis d rs))"
proof (intro conjI impI)
  show "(last_detection_time (state_of (handle_detection vis d t ts fr cs)) = t \<and>
           led (state_of (handle_detection vis d t ts fr cs)) = alert (led d) dur ''solid'' \<and>
           detection_log (state_of (handle_detection vis d t ts fr cs))
             = detection_log d @ [\<lparr>timestamp = ts, contour_count = length cs\<rparr>])
          \<longleftrightarrow> c \<le> t - last_detection_time d"
  proof (cases "c \<le> t - last_detection_time d")
    case True
    with handle_after_cooldown [OF assms True, of vis ts fr cs] show ?thesis by simp
  next
    case False
    then have "t - last_detection_time d < c" by simp
    from handle_within_cooldown [OF assms(1,2) this, of vis ts fr cs] False
    show ?thesis by simp
  qed
next
  assume "0 \<le> c"
  with assms(1,2) show "sorted_wrt (\<lambda>x y. c \<le> y - x) (accepted_times vis d rs)"
    by (rule accepted_separated)
qed

theorem cooldown_gate_accepts_iff_elapsed_witness:
  "getitem (config sim_detector) ''detection_cooldown'' = Inr (JFloat 2) \<and>
   num_of (JFloat 2) = Inr 2 \<and>
   getitem (config sim_detector) ''alert_duration'' = Inr (JFloat 5) \<and>
   last_detection_time (state_of (handle_detection sim_vision sim_detector 100 ''a'' bright [[(0, 0)]]))
     = 100 \<and>
   detection_log (state_of (handle_detection sim_vision sim_detector 100 ''a'' bright [[(0, 0)]]))
     = [\<lparr>timestamp = ''a'', contour_count = 1\<rparr>] \<and>
   accepted_times sim_vision sim_detector sim_readings = [101, 103.5] \<and>
   sorted_wrt (\<lambda>x y. 2 \<le> y - x) (accepted_times sim_vision sim_detector sim_readings)"
proof -
  have h: "getitem (config sim_detector) ''detection_cooldown'' = Inr (JFloat 2)"
    "num_of (JFloat 2) = Inr 2"
    "getitem (config sim_detector) ''alert_duration'' = Inr (JFloat 5)"
    by (simp_all add: sim_detector_def small_lookups)
  have l: "last_detection_time sim_detector = 0" "detection_log sim_detector = []"
    by (simp_all add: sim_detector_def)
  from cooldown_gate_accepts_iff_elapsed
    [OF h, of sim_vision 100 "''a''" bright "[[(0, 0)]]" sim_readings]
  show ?thesis using h l sim_run by simp
qed

text \<open>
  C9. A call of \<^verbatim>\<open>handle_detection\<close> inside the cooldown window returns and leaves the
  detector as it was: the same \<^verbatim>\<open>last_detection_time\<close>, no activation requested from
  the LED controller, no log entry, no snapshot.
\<close>

theorem within_cooldown_no_effect:
  assumes "getitem (config d) ''detection_cooldown'' = Inr cd" and "num_of cd = Inr c"
    and "t - last_detection_time d < c"
  shows "handle_detection vis d t ts fr cs = Returned () d"
  using assms by (rule handle_within_cooldown)

theorem within_cooldown_no_effect_witness:
  "getitem (config fresh_default) ''detection_cooldown'' = Inr (JFloat 2) \<and>
   num_of (JFloat 2) = Inr 2 \<and>
   (1700000001 :: real) - last_detection_time (fresh_default\<lparr>last_detection_time := 1700000000\<rparr>) < 2 \<and>
   handle_detection sim_vision (fresh_default\<lparr>last_detection_time := 1700000000\<rparr>)
       1700000001 ''2023-11-14T22:13:21'' bright [[(0, 0), (0, 1)]]
     = Returned () (fresh_default\<lparr>last_detection_time := 1700000000\<rparr>)"
proof -
  have h: "getitem (config (fresh_default\<lparr>last_detection_time := 1700000000\<rparr>)) ''detection_cooldown''
      = Inr (JFloat 2)"
    "num_of (JFloat 2) = Inr 2"
    "(1700000001 :: real) - last_detection_time (fresh_default\<lparr>last_detection_time := 1700000000\<rparr>) < 2"
    by (simp_all add: fresh_default_def default_lookups)
  from within_cooldown_no_effect [OF h, of sim_vision "''2023-11-14T22:13:21''" bright "[[(0, 0), (0, 1)]]"]
  show ?thesis using h by simp
qed

text \<open>
  C2, as stated, at the timestamps 0.0, 1.0 and 2.1 on a freshly constructed detector with
  the default cooldown of 2.0: \<^verbatim>\<open>__init__\<close> sets \<^verbatim>\<open>last_detection_time = 0\<close>, so the
  detections at 0.0 and 1.0 are both rejected and only the one at 2.1 is accepted.
\<close>

theorem fresh_detector_rejects_at_time_zero:
  "init sim_vision Missing = Inr fresh_default \<and>
   handle_detection sim_vision fresh_default 0 ''1970-01-01T00:00:00'' bright [[(0, 0)]]
     = Returned () fresh_default \<and>
   handle_detection sim_vision fresh_default 1 ''1970-01-01T00:00:01'' bright [[(0, 0)]]
     = Returned () fresh_default \<and>
   detection_log (state_of (handle_detection sim_vision fresh_default 2.1
       ''1970-01-01T00:00:02.100000'' bright [[(0, 0)]]))
     = [\<lparr>timestamp = ''1970-01-01T00:00:02.100000'', contour_count = 1\<rparr>]"
  by (simp add: init_missing handle_detection_def fresh_default_def default_lookups Let_def alert_def)

text \<open>
  C2, amended. On a freshly constructed detector with the default cooldown of 2.0, whose
  \<^verbatim>\<open>last_detection_time\<close> starts at 0, positive detections at \<open>T\<close>, \<open>T + 1.0\<close> and
  \<open>T + 2.1\<close> with \<open>T \<ge> 2.0\<close> (any reading of the wall clock) accept the first and the
  third and reject the second.
\<close>

theorem fresh_detector_scenario_from_cooldown_on:
  assumes "init vis Missing = Inr d0" and "2 \<le> T"
  shows "detection_log (state_of (handle_detection vis d0 T ts1 fr1 cs1))
           = [\<lparr>timestamp = ts1, contour_count = length cs1\<rparr>] \<and>
         handle_detection vis (state_of (handle_detection vis d0 T ts1 fr1 cs1)) (T + 1) ts2 fr2 cs2
           = Returned () (state_of (handle_detection vis d0 T ts1 fr1 cs1)) \<and>
         detection_log (state_of (handle_detection vis (state_of (handle_detection vis d0 T ts1 fr1 cs1))
              (T + 2.1) ts3 fr3 cs3))
           = [\<lparr>timestamp = ts1, contour_count = length cs1\<rparr>,
              \<lparr>timestamp = ts3, contour_count = length cs3\<rparr>]"
proof -
  from assms(1) have d0: "config d0 = default_config" "last_detection_time d0 = 0" "detection_log d0 = []"
    by (auto simp: init_missing_gen)
  let ?d1 = "state_of (handle_detection vis d0 T ts1 fr1 cs1)"
  have c: "getitem (config d0) ''detection_cooldown'' = Inr (JFloat 2)" "num_of (JFloat 2) = Inr 2"
    "getitem (config d0) ''alert_duration'' = Inr (JFloat 5)"
    by (simp_all add: d0 default_lookups)
  from assms(2) have "2 \<le> T - last_detection_time d0" by (simp add: d0)
  note a1 = handle_after_cooldown [OF c this, of vis ts1 fr1 cs1]
  have c1: "getitem (config ?d1) ''detection_cooldown'' = Inr (JFloat 2)"
    "getitem (config ?d1) ''alert_duration'' = Inr (JFloat 5)"
    using a1 c by simp_all
  have "T + 1 - last_detection_time ?d1 < 2" using a1 by simp
  note r2 = handle_within_cooldown [OF c1(1) c(2) this, of vis ts2 fr2 cs2]
  have "2 \<le> T + 2.1 - last_detection_time ?d1" using a1 by simp
  note a3 = handle_after_cooldown [OF c1(1) c(2) c1(2) this, of vis ts3 fr3 cs3]
  show ?thesis using a1 r2 a3 d0 by simp
qed

theorem fresh_detector_scenario_from_cooldown_on_witness:
  "init sim_vision Missing = Inr fresh_default \<and> (2 :: real) \<le> 1700000000 \<and>
   detection_log (state_of (handle_detection sim_vision fresh_default 1700000000 ''a'' bright [[(0, 0)]]))
     = [\<lparr>timestamp = ''a'', contour_count = 1\<rparr>] \<and>
   handle_detection sim_vision
       (state_of (handle_detection sim_vision fresh_default 1700000000 ''a'' bright [[(0, 0)]]))
       (1700000000 + 1) ''b'' bright [[(0, 0)]]
     = Returned () (state_of (handle_detection sim_vision fresh_default 1700000000 ''a'' bright [[(0, 0)]])) \<and>
   detection_log (state_of (handle_detection sim_vision
       (state_of (handle_detection sim_vision fresh_default 1700000000 ''a'' bright [[(0, 0)]]))
       (1700000000 + 2.1) ''c'' bright [[(0, 0)]]))
     = [\<lparr>timestamp = ''a'', contour_count = 1\<rparr>, \<lparr>timestamp = ''c'', contour_count = 1\<rparr>]"
proof -
  have h: "init sim_vision Missing = Inr fresh_default" "(2 :: real) \<le> 1700000000"
    by (simp_all add: init_missing)
  from fresh_detector_scenario_from_cooldown_on
    [OF h, of "''a''" bright "[[(0, 0)]]" "''b''" bright "[[(0, 0)]]" "''c''" bright "[[(0, 0)]]"]
  show ?thesis using h by simp
qed

subsection \<open>Detection and the area filter\<close>

text \<open>
  C5. \<^verbatim>\<open>detect_motion\<close> returns \<open>detected = True\<close> exactly when one of the regions
  extracted from the frame has an area strictly above \<^verbatim>\<open>min_contour_area\<close> (and it raises
  where the extraction raises); in a run of the loop in which no extracted region exceeds
  \<^verbatim>\<open>min_contour_area\<close>, no detection is logged, no alert is requested and no snapshot is
  saved.
\<close>

theorem detected_iff_region_exceeds_min_area:
  assumes "getitem (config d) ''min_contour_area'' = Inr v" and "num_of v = Inr a"
  shows "(\<forall>cs d'. find_regions vis d fr = Returned cs d' \<longrightarrow>
            detect_motion vis d fr
              = Returned ((\<exists>c \<in> set cs. a < contourArea vis c),
                          filter (\<lambda>c. a < contourArea vis c) cs) d') \<and>
         (\<forall>e d'. find_regions vis d fr = Raised e d' \<longrightarrow> detect_motion vis d fr = Raised e d') \<and>
         ((\<forall>c \<in> set (regions_seen vis d rs). contourArea vis c \<le> a) \<longrightarrow>
            detection_log (state_of (run_loop vis d rs)) = detection_log d \<and>
            led (state_of (run_loop vis d rs)) = led d \<and>
            snapshots (state_of (run_loop vis d rs)) = snapshots d)"
proof (intro conjI allI impI)
  fix cs d' assume "find_regions vis d fr = Returned cs d'"
  then show "detect_motion vis d fr
      = Returned ((\<exists>c \<in> set cs. a < contourArea vis c), filter (\<lambda>c. a < contourArea vis c) cs) d'"
    using assms by (rule detect_motion_eq)
next
  fix e d' assume "find_regions vis d fr = Raised e d'"
  then show "detect_motion vis d fr = Raised e d'" by (simp add: detect_motion_def)
next
  assume q: "\<forall>c \<in> set (regions_seen vis d rs). contourArea vis c \<le> a"
  from quiet_run [OF assms(2,1) q]
  show "detection_log (state_of (run_loop vis d rs)) = detection_log d"
    and "led (state_of (run_loop vis d rs)) = led d"
    and "snapshots (state_of (run_loop vis d rs)) = snapshots d"
    by simp_all
qed

theorem detected_iff_region_exceeds_min_area_witness:
  "getitem (config sim_detector) ''min_contour_area'' = Inr (JInt 1) \<and> num_of (JInt 1) = Inr 1 \<and>
   find_regions sim_vision (sim_detector\<lparr>bg_subtractor := Some [[0, 0]]\<rparr>) bright
     = Returned [[(0, 0), (0, 1)]] (sim_detector\<lparr>bg_subtractor := Some [[9, 9]]\<rparr>) \<and>
   detect_motion sim_vision (sim_detector\<lparr>bg_subtractor := Some [[0, 0]]\<rparr>) bright
     = Returned (True, [[(0, 0), (0, 1)]]) (sim_detector\<lparr>bg_subtractor := Some [[9, 9]]\<rparr>) \<and>
   regions_seen sim_vision sim_detector quiet_readings = [[(0, 0)], [(0, 0)]] \<and>
   detection_log (state_of (run_loop sim_vision sim_detector quiet_readings)) = [] \<and>
   activations (led (state_of (run_loop sim_vision sim_detector quiet_readings))) = []"
proof -
  have h: "getitem (config sim_detector) ''min_contour_area'' = Inr (JInt 1)" "num_of (JInt 1) = Inr 1"
    by (simp_all add: sim_detector_def small_lookups)
  have h': "getitem (config (sim_detector\<lparr>bg_subtractor := Some [[0, 0]]\<rparr>)) ''min_contour_area''
      = Inr (JInt 1)"
    by (simp add: sim_detector_def small_lookups)
  have s: "contourArea sim_vision = (\<lambda>c. real (length c))" by (simp add: sim_vision_def)
  have l: "detection_log sim_detector = []" "activations (led sim_detector) = []"
    by (simp_all add: sim_detector_def LEDController_def)
  from detected_iff_region_exceeds_min_area [OF h, of sim_vision bright quiet_readings]
    detected_iff_region_exceeds_min_area [OF h' h(2), of sim_vision bright "[]"]
  show ?thesis using h sim_quiet_regions sim_find_bright s l by simp
qed

subsection \<open>Malformed frames and failed reads\<close>

text \<open>
  C3, as stated, fails: on None, on an array of size zero and on an array with one
  channel \<^verbatim>\<open>detect_motion\<close> raises the error of \<^verbatim>\<open>cvtColor\<close> instead of returning
  \<open>(False, [])\<close>.
\<close>

theorem detect_motion_raises_on_malformed_frame:
  "detect_motion sim_vision fresh_default NoneFrame = Raised CvError fresh_default \<and>
   detect_motion sim_vision fresh_default (Pixels []) = Raised CvError fresh_default \<and>
   detect_motion sim_vision fresh_default (Pixels [[[7]]]) = Raised CvError fresh_default"
  by (simp add: detect_motion_def find_regions_def apply_roi_def fresh_default_def default_lookups)

text \<open>
  C3, amended. On every malformed frame (None, size zero, a channel count other than 3 or
  4) \<^verbatim>\<open>detect_motion\<close> raises and leaves the detector as it was. The guard is in the
  loop: a pass whose camera read failed (\<^verbatim>\<open>ret\<close> false) logs an error and continues
  without calling \<^verbatim>\<open>detect_motion\<close>, so it yields no detection.
\<close>

theorem malformed_frame_raises_failed_read_skipped:
  "(malformed fr \<longrightarrow> (\<exists>e. detect_motion vis d fr = Raised e d)) \<and>
   (\<not> ret r \<longrightarrow>
      run_iteration vis d r = Returned () (d\<lparr>logged := logged d @ [(ERROR, ''Failed to read frame'')]\<rparr>))"
proof (intro conjI impI)
  assume "malformed fr"
  then obtain e where "find_regions vis d fr = Raised e d" using find_regions_malformed by blast
  then show "\<exists>e. detect_motion vis d fr = Raised e d" by (simp add: detect_motion_def)
next
  assume "\<not> ret r"
  then show "run_iteration vis d r = Returned () (d\<lparr>logged := logged d @ [(ERROR, ''Failed to read frame'')]\<rparr>)"
    by (simp add: run_iteration_def)
qed


theorem malformed_frame_raises_failed_read_skipped_witness:
  "malformed (Pixels [[[1, 2]]]) \<and>
   (\<exists>e. detect_motion sim_vision sim_detector (Pixels [[[1, 2]]]) = Raised e sim_detector) \<and>
   \<not> ret \<lparr>ret = False, grabbed = NoneFrame, now = 5, iso = ''a''\<rparr> \<and>
   run_iteration sim_vision sim_detector \<lparr>ret = False, grabbed = NoneFrame, now = 5, iso = ''a''\<rparr>
     = Returned () (sim_detector\<lparr>logged := logged sim_detector @ [(ERROR, ''Failed to read frame'')]\<rparr>)"
proof -
  have h: "malformed (Pixels [[[1, 2]]])"
    "\<not> ret \<lparr>ret = False, grabbed = NoneFrame, now = 5, iso = ''a''\<rparr>"
    by simp_all
  from malformed_frame_raises_failed_read_skipped
    [of "Pixels [[[1, 2]]]" sim_vision sim_detector
        "\<lparr>ret = False, grabbed = NoneFrame, now = 5, iso = ''a''\<rparr>"] h
  show ?thesis by blast
qed

subsection \<open>Region of interest\<close>

text \<open>
  C10. When \<^verbatim>\<open>roi\<close> is absent from the configuration, or None, or an empty list, or any
  other falsy value, \<^verbatim>\<open>detect_motion\<close> processes the frame as it is. When \<^verbatim>\<open>roi\<close> is a
  list of four integers \<open>[x, y, w, h]\<close> it processes \<^verbatim>\<open>frame[y:y+h, x:x+w]\<close> instead (and
  raises on None). Every other truthy \<^verbatim>\<open>roi\<close> makes it raise, so nothing else crops.
\<close>

theorem detect_motion_crops_only_for_four_item_roi:
  "(\<forall>kvs. config d = JObj kvs \<and> map_of kvs ''roi'' = None \<longrightarrow>
      detect_motion vis d fr = process_frame vis d fr) \<and>
   (\<forall>roi. get (config d) ''roi'' = Inr roi \<and> \<not> truthy roi \<longrightarrow>
      detect_motion vis d fr = process_frame vis d fr) \<and>
   (\<forall>x y w h xi yi wi hi.
      get (config d) ''roi'' = Inr (JList [x, y, w, h]) \<and> index_of x = Inr xi \<and>
      index_of y = Inr yi \<and> index_of w = Inr wi \<and> index_of h = Inr hi \<longrightarrow>
      detect_motion vis d NoneFrame = Raised TypeError d \<and>
      (\<forall>rows. detect_motion vis d (Pixels rows)
         = process_frame vis d (Pixels (map (py_slice xi (xi + wi)) (py_slice yi (yi + hi) rows))))) \<and>
   (\<forall>roi. get (config d) ''roi'' = Inr roi \<and> truthy roi \<and>
      \<not> (\<exists>x y w h xi yi wi hi. roi = JList [x, y, w, h] \<and> index_of x = Inr xi \<and>
            index_of y = Inr yi \<and> index_of w = Inr wi \<and> index_of h = Inr hi) \<longrightarrow>
      (\<exists>e. detect_motion vis d fr = Raised e d))"
proof (intro conjI allI impI)
  fix kvs assume "config d = JObj kvs \<and> map_of kvs ''roi'' = None"
  then have "apply_roi (config d) fr = Inr fr" by (simp add: apply_roi_def)
  then show "detect_motion vis d fr = process_frame vis d fr"
    by (simp add: detect_motion_after_roi)
next
  fix roi assume "get (config d) ''roi'' = Inr roi \<and> \<not> truthy roi"
  then have "apply_roi (config d) fr = Inr fr" by (simp add: apply_roi_def)
  then show "detect_motion vis d fr = process_frame vis d fr"
    by (simp add: detect_motion_after_roi)
next
  fix x y w h xi yi wi hi
  assume a: "get (config d) ''roi'' = Inr (JList [x, y, w, h]) \<and> index_of x = Inr xi \<and>
      index_of y = Inr yi \<and> index_of w = Inr wi \<and> index_of h = Inr hi"
  then have r: "\<And>f. apply_roi (config d) f = crop f xi yi wi hi"
    by (simp add: apply_roi_four)
  show "detect_motion vis d NoneFrame = Raised TypeError d"
    by (simp add: detect_motion_after_roi r)
  fix rows
  show "detect_motion vis d (Pixels rows)
      = process_frame vis d (Pixels (map (py_slice xi (xi + wi)) (py_slice yi (yi + hi) rows)))"
    by (simp add: detect_motion_after_roi r)
next
  fix roi
  assume a: "get (config d) ''roi'' = Inr roi \<and> truthy roi \<and>
      \<not> (\<exists>x y w h xi yi wi hi. roi = JList [x, y, w, h] \<and> index_of x = Inr xi \<and>
            index_of y = Inr yi \<and> index_of w = Inr wi \<and> index_of h = Inr hi)"
  then obtain e where "apply_roi (config d) fr = Inl e" using apply_roi_other [of "config d" roi fr] by blast
  then show "\<exists>e. detect_motion vis d fr = Raised e d" by (simp add: detect_motion_after_roi)
qed

theorem detect_motion_crops_only_for_four_item_roi_witness:
  "get (config roi_detector) ''roi'' = Inr (JList [JInt 1, JInt 0, JInt 1, JInt 1]) \<and>
   index_of (JInt 1) = Inr 1 \<and> index_of (JInt 0) = Inr 0 \<and>
   detect_motion sim_vision roi_detector bright
     = process_frame sim_vision roi_detector (Pixels [[[9, 9, 9]]]) \<and>
   detect_motion sim_vision roi_detector bright
     = Returned (False, []) (roi_detector\<lparr>bg_subtractor := Some [[9]]\<rparr>) \<and>
   get (config (sim_detector\<lparr>bg_subtractor := Some [[0, 0]]\<rparr>)) ''roi'' = Inr JNull \<and>
   detect_motion sim_vision (sim_detector\<lparr>bg_subtractor := Some [[0, 0]]\<rparr>) bright
     = process_frame sim_vision (sim_detector\<lparr>bg_subtractor := Some [[0, 0]]\<rparr>) bright \<and>
   detect_motion sim_vision (sim_detector\<lparr>bg_subtractor := Some [[0, 0]]\<rparr>) bright
     = Returned (True, [[(0, 0), (0, 1)]]) (sim_detector\<lparr>bg_subtractor := Some [[9, 9]]\<rparr>) \<and>
   detect_motion sim_vision (sim_detector\<lparr>config := JObj [(''roi'', JInt 7)]\<rparr>) bright
     = Raised TypeError (sim_detector\<lparr>config := JObj [(''roi'', JInt 7)]\<rparr>)"
proof -
  let ?d = "sim_detector\<lparr>bg_subtractor := Some [[0, 0]]\<rparr>"
  let ?b = "sim_detector\<lparr>config := JObj [(''roi'', JInt 7)]\<rparr>"
  have g: "get (config roi_detector) ''roi'' = Inr (JList [JInt 1, JInt 0, JInt 1, JInt 1])"
    "index_of (JInt 1) = Inr 1" "index_of (JInt 0) = Inr 0"
    by (simp_all add: roi_detector_def roi_config_def)
  have n: "get (config ?d) ''roi'' = Inr JNull" "\<not> truthy JNull"
    by (simp_all add: sim_detector_def small_lookups)
  have s: "py_slice 1 (1 + 1) [[9, 9, 9], [9, 9, 9 :: 8 word]] = [[9, 9, 9]]"
    "py_slice 0 (0 + 1) [[[9, 9, 9], [9, 9, 9 :: 8 word]]] = [[[9, 9, 9], [9, 9, 9]]]"
    by (simp_all add: py_slice_def slice_bound_def)
  have p1: "process_frame sim_vision roi_detector (Pixels [[[9, 9, 9]]])
      = Returned (False, []) (roi_detector\<lparr>bg_subtractor := Some [[9]]\<rparr>)"
    by (simp add: process_frame_def roi_detector_def roi_config_def sim_detector_def sim_vision_def
        threshold_binary_def Let_def)
  have p2: "process_frame sim_vision ?d bright
      = Returned (True, [[(0, 0), (0, 1)]]) (sim_detector\<lparr>bg_subtractor := Some [[9, 9]]\<rparr>)"
    by (simp add: process_frame_def sim_detector_def small_lookups sim_vision_def bright_def
        threshold_binary_def Let_def)
  have b: "get (config ?b) ''roi'' = Inr (JInt 7)" "truthy (JInt 7)"
    by simp_all
  have b': "detect_motion sim_vision ?b bright = Raised TypeError ?b"
    by (simp add: detect_motion_def find_regions_def apply_roi_def)
  from detect_motion_crops_only_for_four_item_roi [of roi_detector sim_vision bright] g
  have "detect_motion sim_vision roi_detector bright
      = process_frame sim_vision roi_detector
          (Pixels (map (py_slice 1 (1 + 1)) (py_slice 0 (0 + 1) [[[9, 9, 9], [9, 9, 9]]])))"
    unfolding bright_def by blast
  then have c: "detect_motion sim_vision roi_detector bright
      = process_frame sim_vision roi_detector (Pixels [[[9, 9, 9]]])"
    by (simp only: s list.map)
  from detect_motion_crops_only_for_four_item_roi [of ?d sim_vision bright] n
  have u: "detect_motion sim_vision ?d bright = process_frame sim_vision ?d bright" by blast
  from g n c u p1 p2 b' show ?thesis by simp
qed

subsection \<open>Shadows\<close>

text \<open>
  C6. The samples that the background model puts in the shadow band are dropped by the
  threshold before any region is extracted: \<^verbatim>\<open>detect_motion\<close> gives the same result as
  if those samples had been background. When the mask holds nothing above the threshold
  (shadow only) the regions are those of a blank mask, and where the library finds no
  contour in a blank mask no motion is reported.
\<close>

theorem shadow_samples_dropped_before_regions:
  "detect_motion (shadow_free vis) d fr = detect_motion vis d fr \<and>
   (\<forall>fr1 g bg' m.
      apply_roi (config d) fr = Inr fr1 \<and> cvtColor_BGR2GRAY (gray_of vis) fr1 = Inr g \<and>
      bg_apply vis (bg_subtractor d) (GaussianBlur vis g) = (bg', m) \<and>
      (\<forall>row \<in> set m. \<forall>v \<in> set row. v \<le> 250) \<and>
      findContours vis (morphologyEx vis MORPH_OPEN (morphologyEx vis MORPH_CLOSE (map (map (\<lambda>v. 0)) m))) = []
      \<longrightarrow> detect_motion vis d fr = Returned (False, []) (d\<lparr>bg_subtractor := bg'\<rparr>))"
proof (intro conjI allI impI)
  show "detect_motion (shadow_free vis) d fr = detect_motion vis d fr"
    by (rule detect_motion_shadow_free)
next
  fix fr1 g bg' m
  assume a: "apply_roi (config d) fr = Inr fr1 \<and> cvtColor_BGR2GRAY (gray_of vis) fr1 = Inr g \<and>
      bg_apply vis (bg_subtractor d) (GaussianBlur vis g) = (bg', m) \<and>
      (\<forall>row \<in> set m. \<forall>v \<in> set row. v \<le> 250) \<and>
      findContours vis (morphologyEx vis MORPH_OPEN (morphologyEx vis MORPH_CLOSE (map (map (\<lambda>v. 0)) m))) = []"
  then have "threshold_binary 250 255 m = map (map (\<lambda>v. 0)) m"
    using threshold_shadow_only by blast
  with a have "find_regions vis d fr = Returned [] (d\<lparr>bg_subtractor := bg'\<rparr>)"
    by (simp add: find_regions_def)
  then show "detect_motion vis d fr = Returned (False, []) (d\<lparr>bg_subtractor := bg'\<rparr>)"
    by (simp add: detect_motion_def)
qed

theorem shadow_samples_dropped_before_regions_witness:
  "detect_motion (shadow_free sim_vision) (sim_detector\<lparr>bg_subtractor := Some [[9, 9]]\<rparr>) dark
     = detect_motion sim_vision (sim_detector\<lparr>bg_subtractor := Some [[9, 9]]\<rparr>) dark \<and>
   bg_apply sim_vision (Some [[9, 9]]) [[0, 0]] = (Some [[0, 0]], [[127, 127]]) \<and>
   detect_motion sim_vision (sim_detector\<lparr>bg_subtractor := Some [[9, 9]]\<rparr>) dark
     = Returned (False, []) (sim_detector\<lparr>bg_subtractor := Some [[0, 0]]\<rparr>)"
proof -
  let ?d = "sim_detector\<lparr>bg_subtractor := Some [[9, 9]]\<rparr>"
  have h: "apply_roi (config ?d) dark = Inr dark \<and>
      cvtColor_BGR2GRAY (gray_of sim_vision) dark = Inr [[0, 0]] \<and>
      bg_apply sim_vision (bg_subtractor ?d) (GaussianBlur sim_vision [[0, 0]]) = (Some [[0, 0]], [[127, 127]]) \<and>
      (\<forall>row \<in> set [[127, 127 :: 8 word]]. \<forall>v \<in> set row. v \<le> 250) \<and>
      findContours sim_vision (morphologyEx sim_vision MORPH_OPEN
        (morphologyEx sim_vision MORPH_CLOSE (map (map (\<lambda>v. 0)) [[127, 127 :: 8 word]]))) = []"
    by (simp add: apply_roi_def sim_detector_def small_lookups dark_def sim_vision_def)
  have b: "bg_apply sim_vision (Some [[9, 9]]) [[0, 0]] = (Some [[0, 0]], [[127, 127]])"
    by (simp add: sim_vision_def)
  from shadow_samples_dropped_before_regions [of sim_vision ?d dark] h b show ?thesis by simp
qed

subsection \<open>Configuration\<close>

text \<open>
  C4, as stated, fails: a configuration file that does not parse makes loading raise, and a
  present configuration is taken as it is, so that an option it leaves out raises KeyError
  where it is read (in \<^verbatim>\<open>__init__\<close> for \<^verbatim>\<open>led_pin\<close>, in \<^verbatim>\<open>handle_detection\<close> for
  \<^verbatim>\<open>detection_cooldown\<close>).
\<close>

theorem config_loading_aborts_without_fallback:
  "load_config Malformed = Raised JSONDecodeError [] \<and>
   init sim_vision Malformed = Inl JSONDecodeError \<and>
   init sim_vision (Parsed (JObj [(''detection_cooldown'', JFloat 3)])) = Inl KeyError \<and>
   init sim_vision (Parsed partial_config) = Inr partial_detector \<and>
   handle_detection sim_vision partial_detector 1700000000 ''a'' bright [[(0, 0)]]
     = Raised KeyError partial_detector"
  by (simp add: load_config_def init_def handle_detection_def sim_vision_def partial_config_def
      partial_detector_def)

text \<open>
  C4, amended. When the configuration file is missing, loading returns the documented
  defaults with a warning. A file that parses is returned as it is, with no fallback for
  single options: an option left out raises KeyError where it is read with
  \<^verbatim>\<open>config[...]\<close>, and is None (falsy) where it is read with \<^verbatim>\<open>config.get\<close>, as
  \<^verbatim>\<open>roi\<close> and \<^verbatim>\<open>save_detections\<close> are. A file that does not parse makes loading raise.
\<close>

theorem load_config_defaults_only_when_missing:
  "load_config Missing = Returned default_config [(WARNING, ''Config not found, using defaults'')] \<and>
   (\<forall>j. load_config (Parsed j) = Returned j []) \<and>
   load_config Malformed = Raised JSONDecodeError [] \<and>
   getitem default_config ''frame_width'' = Inr (JInt 640) \<and>
   getitem default_config ''frame_height'' = Inr (JInt 480) \<and>
   getitem default_config ''fps'' = Inr (JInt 30) \<and>
   getitem default_config ''led_pin'' = Inr (JInt 17) \<and>
   getitem default_config ''min_contour_area'' = Inr (JInt 5000) \<and>
   getitem default_config ''detection_cooldown'' = Inr (JFloat 2.0) \<and>
   getitem default_config ''alert_duration'' = Inr (JFloat 5.0) \<and>
   getitem default_config ''bg_history'' = Inr (JInt 500) \<and>
   getitem default_config ''var_threshold'' = Inr (JInt 50) \<and>
   get default_config ''roi'' = Inr JNull \<and>
   get default_config ''save_detections'' = Inr (JBool False) \<and>
   (\<forall>kvs k. map_of kvs k = None \<longrightarrow>
      getitem (JObj kvs) k = Inl KeyError \<and> get (JObj kvs) k = Inr JNull \<and> \<not> truthy JNull)"
  by (simp add: load_config_def default_config_def)

theorem load_config_defaults_only_when_missing_witness:
  "map_of [(''led_pin'', JInt 4)] ''roi'' = None \<and>
   getitem (JObj [(''led_pin'', JInt 4)]) ''roi'' = Inl KeyError \<and>
   get (JObj [(''led_pin'', JInt 4)]) ''roi'' = Inr JNull \<and>
   load_config (Parsed (JObj [(''led_pin'', JInt 4)])) = Returned (JObj [(''led_pin'', JInt 4)]) []"
proof -
  have h: "map_of [(''led_pin'', JInt 4)] ''roi'' = None" by simp
  from load_config_defaults_only_when_missing h show ?thesis by blast
qed

subsection \<open>The solid alert\<close>

text \<open>
  C8. A solid activation of duration \<open>D\<close> that nothing stops drives the pin high when it
  starts, at time \<open>clk\<close>, and low once, at the first poll that finds the deadline
  \<open>clk + D\<close> reached: the pin is high during the whole of \<open>[clk, clk + D)\<close>, and the poll
  before was still short of the deadline. Every sleep lasts at least the 0.1 s asked for.
\<close>

theorem solid_alert_on_until_deadline:
  assumes "num_of duration = Inr D" and "pattern \<noteq> ''blink''"
    and "\<forall>t. \<not> stop t" and "\<forall>s \<in> set sleeps. 1 / 10 \<le> s"
    and "D \<le> real (length sleeps) / 10"
  shows "\<exists>t_off. run_alert stop duration pattern clk sleeps
             = Some (Returned () [(clk, True), (t_off, False)]) \<and>
           clk + D \<le> t_off \<and>
           (if 0 < D
            then \<exists>k < length sleeps. t_off = clk + sum_list (take (Suc k) sleeps) \<and>
                   sum_list (take k sleeps) < D
            else t_off = clk)"
proof -
  from assms(5) have "D - (clk - clk) \<le> real (length sleeps) / 10" by simp
  from solid_wait_poll [OF assms(3,4) this] obtain t where
    t: "solid_wait stop clk D clk sleeps = Some t" "D \<le> t - clk"
      "if clk - clk < D
       then \<exists>k < length sleeps. t = clk + sum_list (take (Suc k) sleeps) \<and>
              clk + sum_list (take k sleeps) - clk < D
       else t = clk"
    by blast
  from t(1) assms(1,2) have "run_alert stop duration pattern clk sleeps
      = Some (Returned () [(clk, True), (t, False)])"
    by (simp add: run_alert_def)
  moreover from t(2) have "clk + D \<le> t" by simp
  moreover from t(3) have "if 0 < D
      then \<exists>k < length sleeps. t = clk + sum_list (take (Suc k) sleeps) \<and> sum_list (take k sleeps) < D
      else t = clk"
    by (cases "0 < D") auto
  ultimately show ?thesis by blast
qed

theorem solid_alert_on_until_deadline_witness:
  "num_of (JFloat 0.25) = Inr 0.25 \<and> ''solid'' \<noteq> ''blink'' \<and>
   (0.25 :: real) \<le> real (length [0.1, 0.12, 0.1, 0.1 :: real]) / 10 \<and>
   run_alert (\<lambda>t. False) (JFloat 0.25) ''solid'' 10 [0.1, 0.12, 0.1, 0.1]
     = Some (Returned () [(10, True), (10.32, False)])"
proof -
  have h: "num_of (JFloat 0.25) = Inr 0.25" "''solid'' \<noteq> ''blink''" "\<forall>t :: real. \<not> (\<lambda>t. False) t"
    "\<forall>s \<in> set [0.1, 0.12, 0.1, 0.1 :: real]. 1 / 10 \<le> s"
    "(0.25 :: real) \<le> real (length [0.1, 0.12, 0.1, 0.1 :: real]) / 10"
    by simp_all
  from solid_alert_on_until_deadline [OF h, of 10] obtain t_off where
    "run_alert (\<lambda>t. False) (JFloat 0.25) ''solid'' 10 [0.1, 0.12, 0.1, 0.1]
       = Some (Returned () [(10, True), (t_off, False)])" by blast
  moreover have "run_alert (\<lambda>t. False) (JFloat 0.25) ''solid'' 10 [0.1, 0.12, 0.1, 0.1]
       = Some (Returned () [(10, True), (10.32, False)])"
    by (simp add: run_alert_def solid_wait.simps)
  ultimately show ?thesis using h by simp
qed

subsection \<open>A new alert during an activation\<close>




end
